theory Spec2Isabelle
  imports Complex_Main
begin

section \<open>Dialog descriptors and the registry state\<close>

text \<open>
  The stacked-dialog registry of the dialux package (the component source embedded in
  \<^verbatim>\<open>packages/dialux/PUBLISH.md\<close>). A descriptor is the interface
  \<^verbatim>\<open>DialogProps { id: string; open?: boolean; dialog: React.ReactElement }\<close>.
  The field \<^verbatim>\<open>open\<close> is optional, hence a \<open>bool option\<close> (\<open>None\<close> is
  \<^verbatim>\<open>undefined\<close>); the content is opaque, hence a type parameter. The field names carry
  the suffix \<open>_d\<close> because \<open>id\<close> and \<open>open\<close> are constants of HOL.
\<close>

record 'c DialogProps =
  id_d :: string
  open_d :: "bool option"
  dialog_d :: 'c

text \<open>
  The registry is the React state \<^verbatim>\<open>dialogs\<close> of \<^verbatim>\<open>DialogProvider\<close>, an array of
  descriptors. Every \<^verbatim>\<open>setDialogs\<close> call of the source passes an updater function of the
  previous state, so each operation is a function from the previous array to the next one.
\<close>

type_synonym 'c registry = "'c DialogProps list"

text \<open>
  JavaScript truthiness of the optional flag, as \<^verbatim>\<open>dialogs.filter((dialog) => dialog.open)\<close>
  reads it: only \<^verbatim>\<open>true\<close> passes, \<^verbatim>\<open>false\<close> and \<^verbatim>\<open>undefined\<close> do not.
\<close>

definition truthy :: "bool option \<Rightarrow> bool" where
  "truthy b = (case b of None \<Rightarrow> False | Some v \<Rightarrow> v)"

text \<open>\<^verbatim>\<open>dialog.open ?? false\<close>: the nullish default.\<close>

definition nullish_default :: "bool option \<Rightarrow> bool \<Rightarrow> bool" where
  "nullish_default b dflt = (case b of None \<Rightarrow> dflt | Some v \<Rightarrow> v)"

text \<open>
  The initial state:
  \<^verbatim>\<open>initialDialogs?.map((dialog) => ({ ...dialog, open: dialog.open ?? false })) || []\<close>.
  The prop \<^verbatim>\<open>dialogs\<close> is optional; without it the registry is the empty array.
\<close>

definition initialState :: "'c DialogProps list option \<Rightarrow> 'c registry" where
  "initialState initialDialogs =
     (case initialDialogs of
        None \<Rightarrow> []
      | Some ds \<Rightarrow>
          map (\<lambda>dialog. dialog\<lparr>open_d := Some (nullish_default (open_d dialog) False)\<rparr>) ds)"

definition openDialog :: "string \<Rightarrow> 'c registry \<Rightarrow> 'c registry" where
  "openDialog i prevDialogs =
     map (\<lambda>dialog. if id_d dialog = i then dialog\<lparr>open_d := Some True\<rparr> else dialog)
       prevDialogs"

definition closeDialog :: "string \<Rightarrow> 'c registry \<Rightarrow> 'c registry" where
  "closeDialog i prevDialogs =
     map (\<lambda>dialog. if id_d dialog = i then dialog\<lparr>open_d := Some False\<rparr> else dialog)
       prevDialogs"

text \<open>
  \<^verbatim>\<open>clearDialogs\<close> guards its update with \<^verbatim>\<open>if (dialogs)\<close>, where \<^verbatim>\<open>dialogs\<close> is the
  state array that the render which created the function saw (its first argument here).
  An array is an object, and every object is truthy in JavaScript, the empty array
  included. The update itself runs on the previous state, the second argument.
\<close>

definition array_truthy :: "'a list \<Rightarrow> bool" where
  "array_truthy xs = True"

definition clearDialogs :: "'c registry \<Rightarrow> 'c registry \<Rightarrow> 'c registry" where
  "clearDialogs dialogs prevDialogs =
     (if array_truthy dialogs
      then map (\<lambda>dialog. dialog\<lparr>open_d := Some False\<rparr>) prevDialogs
      else prevDialogs)"

section \<open>The context and its accessor\<close>

text \<open>
  The value a \<^verbatim>\<open>DialogProvider\<close> puts into the React context: three generated element
  ids, the state array of the current render, and the three operations. Outside every
  provider the context holds its default, \<^verbatim>\<open>undefined\<close>, which is \<open>None\<close> here.
\<close>

record DialogIds =
  title_i :: string
  description_i :: string
  content_i :: string

record 'c DialogContextProps =
  id_c :: DialogIds
  dialogs_c :: "'c registry"
  openDialog_c :: "string \<Rightarrow> 'c registry \<Rightarrow> 'c registry"
  closeDialog_c :: "string \<Rightarrow> 'c registry \<Rightarrow> 'c registry"
  clearDialogs_c :: "'c registry \<Rightarrow> 'c registry"

text \<open>
  The provider's context value for the state \<open>dialogs\<close>. The three results of React's
  \<^verbatim>\<open>useId()\<close> are parameters.
\<close>

definition DialogProvider ::
  "string \<Rightarrow> string \<Rightarrow> string \<Rightarrow> 'c registry \<Rightarrow> 'c DialogContextProps" where
  "DialogProvider u1 u2 u3 dialogs =
     \<lparr>id_c = \<lparr>title_i = ''dialux-'' @ u1,
              description_i = ''dialux-'' @ u2,
              content_i = ''dialux-'' @ u3\<rparr>,
      dialogs_c = dialogs,
      openDialog_c = openDialog,
      closeDialog_c = closeDialog,
      clearDialogs_c = clearDialogs dialogs\<rparr>"

datatype error = Error string

text \<open>
  \<^verbatim>\<open>useDialogContext\<close>: \<^verbatim>\<open>if (!context) throw new Error(...)\<close>. A context value is an
  object, so the test fails exactly on \<^verbatim>\<open>undefined\<close>.
\<close>

definition useDialogContext ::
  "'c DialogContextProps option \<Rightarrow> error + 'c DialogContextProps" where
  "useDialogContext context =
     (case context of
        None \<Rightarrow> Inl (Error ''useDialogContext must be used within a DialogProvider'')
      | Some c \<Rightarrow> Inr c)"

section \<open>Components that read the context\<close>

text \<open>
  A component is modelled by what its render returns: the error thrown by the accessor
  (\<open>Inl\<close>), or the part of the rendered element that depends on the registry (\<open>Inr\<close>). An
  event handler of the element is a function on the pair of the caller's own state (which
  the caller's callback may change) and the registry state (which the context's operations
  change). A caller's callback is optional; \<^verbatim>\<open>onOpenChange?.(open)\<close> and
  \<^verbatim>\<open>if (props.onClick)\<close> skip an absent one.
\<close>

definition handleOpenChange ::
  "(bool \<Rightarrow> 's \<Rightarrow> 's) option \<Rightarrow> ('c registry \<Rightarrow> 'c registry) \<Rightarrow> bool
    \<Rightarrow> 's \<times> 'c registry \<Rightarrow> 's \<times> 'c registry" where
  "handleOpenChange onOpenChange clear opn st =
     (let s1 = (case onOpenChange of None \<Rightarrow> fst st | Some f \<Rightarrow> f opn (fst st))
      in if \<not> opn then (s1, clear (snd st)) else (s1, snd st))"

definition DialogRootContent ::
  "'c DialogContextProps option \<Rightarrow> (bool \<Rightarrow> 's \<Rightarrow> 's) option
    \<Rightarrow> error + (bool \<Rightarrow> 's \<times> 'c registry \<Rightarrow> 's \<times> 'c registry)" where
  "DialogRootContent context onOpenChange =
     (case useDialogContext context of
        Inl e \<Rightarrow> Inl e
      | Inr c \<Rightarrow> Inr (handleOpenChange onOpenChange (clearDialogs_c c)))"

text \<open>
  \<^verbatim>\<open>if (dialogId)\<close> on an optional string: absent and empty are both falsy, so the
  trigger opens a descriptor only for a non-empty id.
\<close>

definition DialogTrigger ::
  "'c DialogContextProps option \<Rightarrow> string option \<Rightarrow> ('s \<Rightarrow> 's) option
    \<Rightarrow> error + ('s \<times> 'c registry \<Rightarrow> 's \<times> 'c registry)" where
  "DialogTrigger context dialogId onClick =
     (case useDialogContext context of
        Inl e \<Rightarrow> Inl e
      | Inr c \<Rightarrow>
          Inr (\<lambda>st.
            let s1 = (case onClick of None \<Rightarrow> fst st | Some f \<Rightarrow> f (fst st))
            in (case dialogId of
                  None \<Rightarrow> (s1, snd st)
                | Some i \<Rightarrow>
                    if i \<noteq> [] then (s1, openDialog_c c i (snd st)) else (s1, snd st))))"

definition DialogStackRemove ::
  "'c DialogContextProps option \<Rightarrow> string \<Rightarrow> ('s \<Rightarrow> 's) option
    \<Rightarrow> error + ('s \<times> 'c registry \<Rightarrow> 's \<times> 'c registry)" where
  "DialogStackRemove context dialogId onClick =
     (case useDialogContext context of
        Inl e \<Rightarrow> Inl e
      | Inr c \<Rightarrow>
          Inr (\<lambda>st.
            let s1 = (case onClick of None \<Rightarrow> fst st | Some f \<Rightarrow> f (fst st))
            in (s1, closeDialog_c c dialogId (snd st))))"

definition DialogStackAdd ::
  "'c DialogContextProps option \<Rightarrow> string \<Rightarrow> ('s \<Rightarrow> 's) option
    \<Rightarrow> error + ('s \<times> 'c registry \<Rightarrow> 's \<times> 'c registry)" where
  "DialogStackAdd context dialogId onClick =
     (case useDialogContext context of
        Inl e \<Rightarrow> Inl e
      | Inr c \<Rightarrow>
          Inr (\<lambda>st.
            let s1 = (case onClick of None \<Rightarrow> fst st | Some f \<Rightarrow> f (fst st))
            in (s1, openDialog_c c dialogId (snd st))))"

text \<open>
  The three content wrappers render an element whose attributes are the generated ids,
  overridden by the caller's props, which are spread after them.
\<close>

definition DialogStackContent ::
  "'c DialogContextProps option \<Rightarrow> (string \<rightharpoonup> string) \<Rightarrow> error + (string \<rightharpoonup> string)" where
  "DialogStackContent context props =
     (case useDialogContext context of
        Inl e \<Rightarrow> Inl e
      | Inr c \<Rightarrow>
          Inr ([''id'' \<mapsto> content_i (id_c c),
                ''aria-labelledby'' \<mapsto> title_i (id_c c),
                ''aria-describedby'' \<mapsto> description_i (id_c c)] ++ props))"

definition DialogStackTitle ::
  "'c DialogContextProps option \<Rightarrow> (string \<rightharpoonup> string) \<Rightarrow> error + (string \<rightharpoonup> string)" where
  "DialogStackTitle context props =
     (case useDialogContext context of
        Inl e \<Rightarrow> Inl e
      | Inr c \<Rightarrow> Inr ([''id'' \<mapsto> title_i (id_c c)] ++ props))"

definition DialogStackDescription ::
  "'c DialogContextProps option \<Rightarrow> (string \<rightharpoonup> string) \<Rightarrow> error + (string \<rightharpoonup> string)" where
  "DialogStackDescription context props =
     (case useDialogContext context of
        Inl e \<Rightarrow> Inl e
      | Inr c \<Rightarrow> Inr ([''id'' \<mapsto> description_i (id_c c)] ++ props))"

section \<open>JavaScript numbers\<close>

text \<open>
  The offsets, scales, opacities and vertical offsets of the stack are JavaScript numbers:
  IEEE 754 binary64 values with round-to-nearest, ties-to-even arithmetic. A number is
  \<^verbatim>\<open>NaN\<close>, an infinity, the negative zero, or \<open>Num r\<close> for the real value \<open>r\<close> of a
  finite double (\<open>Num 0\<close> is the positive zero).
\<close>

datatype js_number = NaN | PosInf | NegInf | NegZero | Num real

definition pow2 :: "int \<Rightarrow> real" where
  "pow2 e = (if 0 \<le> e then 2 ^ nat e else 1 / 2 ^ nat (- e))"

text \<open>
  \<open>binade a lo hi\<close> finds by bisection the exponent \<open>k\<close> in \<open>[lo, hi)\<close> with
  \<open>2^k \<le> a < 2^(k+1)\<close>; below \<open>2^lo\<close> it answers \<open>lo\<close> and from \<open>2^hi\<close> on \<open>hi - 1\<close>.
\<close>

function binade :: "real \<Rightarrow> int \<Rightarrow> int \<Rightarrow> int" where
  "binade a lo hi =
     (if hi - lo \<le> 1 then lo
      else (let mid = (lo + hi) div 2
            in if pow2 mid \<le> a then binade a mid hi else binade a lo mid))"
  by pat_completeness auto
termination
  by (relation "measure (\<lambda>(a, lo, hi). nat (hi - lo))") auto

declare binade.simps [simp del]

definition round_half_even :: "real \<Rightarrow> int" where
  "round_half_even q =
     (let f = \<lfloor>q\<rfloor>; r = q - of_int f
      in if r < 1 / 2 then f else if 1 / 2 < r then f + 1 else if even f then f else f + 1)"

text \<open>
  Rounding a magnitude \<open>a \<ge> 0\<close> to binary64. The spacing of the doubles around \<open>a\<close> is
  \<open>2^e\<close>, where \<open>e\<close> is 52 below the binade of \<open>a\<close> and never below \<open>-1074\<close> (normal
  binades start at \<open>-1022\<close>; below them the doubles are subnormal). The result is the
  nearest multiple of \<open>2^e\<close>, the even one on a tie; a result of \<open>2^1024\<close> or more is an
  overflow, \<open>None\<close>.
\<close>

definition round_magnitude :: "real \<Rightarrow> real option" where
  "round_magnitude a =
     (let e = binade a (- 1022) 1024 - 52;
          v = of_int (round_half_even (a / pow2 e)) * pow2 e
      in if pow2 1024 \<le> v then None else Some v)"

text \<open>The double for a sign and a magnitude: overflow gives the infinity of that sign,
  underflow to zero the zero of that sign.\<close>

definition fl :: "bool \<Rightarrow> real \<Rightarrow> js_number" where
  "fl neg a =
     (case round_magnitude a of
        None \<Rightarrow> (if neg then NegInf else PosInf)
      | Some v \<Rightarrow> if v = 0 then (if neg then NegZero else Num 0)
                  else Num (if neg then - v else v))"

text \<open>A numeric literal of the source, such as \<^verbatim>\<open>0.05\<close>, denotes the nearest double.\<close>

definition js_literal :: "real \<Rightarrow> js_number" where
  "js_literal r = fl (r < 0) \<bar>r\<bar>"

text \<open>
  An integer that the source computes from array lengths and indices
  (\<^verbatim>\<open>openDialogs.length - index - 1\<close>) as a number.
\<close>

definition js_of_int :: "int \<Rightarrow> js_number" where
  "js_of_int n = js_literal (of_int n)"

fun is_neg :: "js_number \<Rightarrow> bool" where
  "is_neg NaN = False"
| "is_neg PosInf = False"
| "is_neg NegInf = True"
| "is_neg NegZero = True"
| "is_neg (Num r) = (r < 0)"

fun is_inf :: "js_number \<Rightarrow> bool" where
  "is_inf PosInf = True"
| "is_inf NegInf = True"
| "is_inf _ = False"

fun value_of :: "js_number \<Rightarrow> real" where
  "value_of (Num r) = r"
| "value_of _ = 0"

text \<open>
  \<^verbatim>\<open>x * y\<close>: \<^verbatim>\<open>NaN\<close> is contagious, infinity times zero is \<^verbatim>\<open>NaN\<close>, the sign of the
  result is the exclusive or of the signs, and a finite product is rounded.
\<close>

definition js_mul :: "js_number \<Rightarrow> js_number \<Rightarrow> js_number" where
  "js_mul x y =
     (if x = NaN \<or> y = NaN then NaN
      else if is_inf x \<or> is_inf y
      then (if (\<not> is_inf x \<and> value_of x = 0) \<or> (\<not> is_inf y \<and> value_of y = 0) then NaN
            else if is_neg x \<noteq> is_neg y then NegInf else PosInf)
      else fl (is_neg x \<noteq> is_neg y) (\<bar>value_of x\<bar> * \<bar>value_of y\<bar>))"

text \<open>
  \<^verbatim>\<open>x + y\<close>: opposite infinities give \<^verbatim>\<open>NaN\<close>; an exact sum of zero is the positive
  zero unless both operands are negative zeros; any other finite sum is rounded.
\<close>

definition js_add :: "js_number \<Rightarrow> js_number \<Rightarrow> js_number" where
  "js_add x y =
     (if x = NaN \<or> y = NaN then NaN
      else if is_inf x then (if is_inf y \<and> is_neg x \<noteq> is_neg y then NaN else x)
      else if is_inf y then y
      else (let s = value_of x + value_of y
            in if s = 0 then (if is_neg x \<and> is_neg y then NegZero else Num 0)
               else fl (s < 0) \<bar>s\<bar>))"

text \<open>Unary minus flips the sign, of a zero too.\<close>

fun js_neg :: "js_number \<Rightarrow> js_number" where
  "js_neg NaN = NaN"
| "js_neg PosInf = NegInf"
| "js_neg NegInf = PosInf"
| "js_neg NegZero = Num 0"
| "js_neg (Num r) = (if r = 0 then NegZero else Num (- r))"

definition js_sub :: "js_number \<Rightarrow> js_number \<Rightarrow> js_number" where
  "js_sub x y = js_add x (js_neg y)"

text \<open>\<^verbatim>\<open>x < y\<close>: false when either side is \<^verbatim>\<open>NaN\<close>; the two zeros are equal.\<close>

definition js_less :: "js_number \<Rightarrow> js_number \<Rightarrow> bool" where
  "js_less x y =
     (if x = NaN \<or> y = NaN then False
      else if x = PosInf \<or> y = NegInf then False
      else if x = NegInf \<or> y = PosInf then True
      else value_of x < value_of y)"

section \<open>The stack renderer\<close>

text \<open>
  \<^verbatim>\<open>DialogStack\<close> takes three optional numbers, with the defaults \<^verbatim>\<open>24\<close>, \<^verbatim>\<open>0.05\<close> and
  \<^verbatim>\<open>0.33\<close> for an absent one. Its remaining props are spread over the content element
  after the component's own \<^verbatim>\<open>onPointerDownOutside\<close>, so a caller's handler of that name
  replaces the component's. A caller's handler acts on the caller's own state: the context
  accessor is not exported, so the caller cannot reach the registry operations.
\<close>

record 's DialogStackProps =
  offsetY :: "js_number option"
  offsetScale :: "js_number option"
  offsetOpacity :: "js_number option"
  onPointerDownOutside_p :: "('s \<Rightarrow> 's) option"

definition default_param :: "js_number option \<Rightarrow> js_number \<Rightarrow> js_number" where
  "default_param p dflt = (case p of None \<Rightarrow> dflt | Some v \<Rightarrow> v)"

text \<open>
  A target of the motion library: the objects passed as \<^verbatim>\<open>initial\<close>, \<^verbatim>\<open>animate\<close> and
  \<^verbatim>\<open>exit\<close>. Only \<^verbatim>\<open>animate\<close> carries a \<^verbatim>\<open>zIndex\<close>, which is a difference of an array
  length and a position, an integer.
\<close>

record motion_target =
  scale_t :: js_number
  y_t :: js_number
  opacity_t :: js_number
  zIndex_t :: "int option"

record 'c motion_div =
  key_m :: string
  dom_id_m :: string
  initial_m :: motion_target
  animate_m :: motion_target
  exit_m :: motion_target
  children_m :: 'c

text \<open>\<^verbatim>\<open>const openDialogs = dialogs.filter((dialog) => dialog.open)\<close>\<close>

definition openDialogs_of :: "'c registry \<Rightarrow> 'c registry" where
  "openDialogs_of dialogs = filter (\<lambda>dialog. truthy (open_d dialog)) dialogs"

text \<open>
  \<^verbatim>\<open>const position = openDialogs.length - index - 1\<close>, computed in the integers; the
  index of a \<^verbatim>\<open>map\<close> callback is below the length, so no truncation is involved.
\<close>

definition position_of :: "nat \<Rightarrow> nat \<Rightarrow> int" where
  "position_of len index = int len - int index - 1"

definition stack_item ::
  "js_number \<Rightarrow> js_number \<Rightarrow> js_number \<Rightarrow> nat \<Rightarrow> nat \<Rightarrow> 'c DialogProps \<Rightarrow> 'c motion_div" where
  "stack_item offY offS offO len index dialog =
     (let position = position_of len index
      in \<lparr>key_m = id_d dialog,
          dom_id_m = id_d dialog,
          initial_m = \<lparr>scale_t = js_literal 1, y_t = offY, opacity_t = js_literal 0,
                       zIndex_t = None\<rparr>,
          animate_m = \<lparr>scale_t = js_sub (js_literal 1) (js_mul offS (js_of_int position)),
                       y_t = js_mul (js_of_int position) (js_neg offY),
                       opacity_t = js_sub (js_literal 1) (js_mul offO (js_of_int position)),
                       zIndex_t = Some (int len - position)\<rparr>,
          exit_m = \<lparr>scale_t = js_literal 1, y_t = js_mul offY (js_literal 2),
                    opacity_t = js_literal 0, zIndex_t = None\<rparr>,
          children_m = dialog_d dialog\<rparr>)"

text \<open>
  What \<^verbatim>\<open>DialogStack\<close> renders: the children of its \<^verbatim>\<open>AnimatePresence\<close>, one
  \<^verbatim>\<open>motion.div\<close> per open descriptor, and the handler of the content element for a
  pointer press outside it: the caller's when the props hold one, else a call of
  \<^verbatim>\<open>clearDialogs\<close>.
\<close>

record ('s, 'c) DialogStack_view =
  stack_children :: "'c motion_div list"
  onPointerDownOutside :: "'s \<times> 'c registry \<Rightarrow> 's \<times> 'c registry"

definition DialogStack ::
  "'c DialogContextProps option \<Rightarrow> 's DialogStackProps
    \<Rightarrow> error + ('s, 'c) DialogStack_view" where
  "DialogStack context props =
     (case useDialogContext context of
        Inl e \<Rightarrow> Inl e
      | Inr c \<Rightarrow>
          (let offY = default_param (offsetY props) (js_literal 24);
               offS = default_param (offsetScale props) (js_literal (5 / 100));
               offO = default_param (offsetOpacity props) (js_literal (33 / 100));
               openDialogs = openDialogs_of (dialogs_c c)
           in Inr \<lparr>stack_children =
                     map (\<lambda>(index, dialog).
                            stack_item offY offS offO (length openDialogs) index dialog)
                       (zip [0..<length openDialogs] openDialogs),
                   onPointerDownOutside =
                     (case onPointerDownOutside_p props of
                        None \<Rightarrow> (\<lambda>st. (fst st, clearDialogs_c c (snd st)))
                      | Some f \<Rightarrow> (\<lambda>st. (f (fst st), snd st)))\<rparr>))"

section \<open>Sequences of registry calls\<close>

text \<open>
  The registry changes only through the three operations of the context. A history of
  the registry is a list of such calls, applied from left to right.
\<close>

datatype registry_call = Open string | Close string | ClearAll

fun apply_call :: "registry_call \<Rightarrow> 'c registry \<Rightarrow> 'c registry" where
  "apply_call (Open i) ds = openDialog i ds"
| "apply_call (Close i) ds = closeDialog i ds"
| "apply_call ClearAll ds = clearDialogs ds ds"

definition run_calls :: "registry_call list \<Rightarrow> 'c registry \<Rightarrow> 'c registry" where
  "run_calls calls ds = fold apply_call calls ds"

section \<open>Last-write-wins, as the specification words it\<close>

text \<open>
  The specification describes the behaviour on duplicate ids as last-write-wins: of the
  descriptors that bear one id, only the last one takes effect. The three definitions
  below write that reading out, for comparison with \<open>openDialog\<close>, \<open>closeDialog\<close> and
  \<open>openDialogs_of\<close>, which come from the source. A descriptor is the last with its id
  when no later descriptor of the array bears the same id.
\<close>

definition is_last_with_id :: "'c registry \<Rightarrow> nat \<Rightarrow> bool" where
  "is_last_with_id ds j = (id_d (ds ! j) \<notin> set (map id_d (drop (Suc j) ds)))"

definition spec_lww_set_open :: "bool \<Rightarrow> string \<Rightarrow> 'c registry \<Rightarrow> 'c registry" where
  "spec_lww_set_open b i ds =
     map (\<lambda>(j, d). if id_d d = i \<and> is_last_with_id ds j then d\<lparr>open_d := Some b\<rparr> else d)
       (zip [0..<length ds] ds)"

definition spec_lww_openDialogs :: "'c registry \<Rightarrow> 'c registry" where
  "spec_lww_openDialogs ds =
     map snd (filter (\<lambda>(j, d). truthy (open_d d) \<and> is_last_with_id ds j)
       (zip [0..<length ds] ds))"

section \<open>Example registries\<close>

text \<open>
  The registry of the package's usage example, with the first dialog closed and the second
  one open; the theorems below are instantiated at it.
\<close>

abbreviation two_dialogs :: "nat DialogProps list" where
  "two_dialogs \<equiv> [\<lparr>id_d = ''first'', open_d = Some False, dialog_d = 1\<rparr>,
                  \<lparr>id_d = ''second'', open_d = Some True, dialog_d = 2\<rparr>]"

text \<open>
  The descriptor list of the usage example as the caller writes it, without any
  \<^verbatim>\<open>open\<close> value, and a list whose second descriptor asks to start open.
\<close>

abbreviation unset_dialogs :: "nat DialogProps list" where
  "unset_dialogs \<equiv> [\<lparr>id_d = ''first'', open_d = None, dialog_d = 1\<rparr>,
                    \<lparr>id_d = ''second'', open_d = None, dialog_d = 2\<rparr>]"

abbreviation preset_dialogs :: "nat DialogProps list" where
  "preset_dialogs \<equiv> [\<lparr>id_d = ''first'', open_d = None, dialog_d = 1\<rparr>,
                     \<lparr>id_d = ''second'', open_d = Some True, dialog_d = 2\<rparr>]"

text \<open>
  Three open descriptors \<open>A\<close>, \<open>B\<close>, \<open>C\<close>; the same three with a closed and an unset
  descriptor between them; the stack's props left at their defaults; and props that set
  the scale and opacity offsets to zero.
\<close>

abbreviation abc_dialogs :: "nat DialogProps list" where
  "abc_dialogs \<equiv> [\<lparr>id_d = ''A'', open_d = Some True, dialog_d = 1\<rparr>,
                  \<lparr>id_d = ''B'', open_d = Some True, dialog_d = 2\<rparr>,
                  \<lparr>id_d = ''C'', open_d = Some True, dialog_d = 3\<rparr>]"

abbreviation mixed_dialogs :: "nat DialogProps list" where
  "mixed_dialogs \<equiv> [\<lparr>id_d = ''A'', open_d = Some True, dialog_d = 1\<rparr>,
                    \<lparr>id_d = ''X'', open_d = Some False, dialog_d = 7\<rparr>,
                    \<lparr>id_d = ''B'', open_d = Some True, dialog_d = 2\<rparr>,
                    \<lparr>id_d = ''Y'', open_d = None, dialog_d = 8\<rparr>,
                    \<lparr>id_d = ''C'', open_d = Some True, dialog_d = 3\<rparr>]"

abbreviation default_props :: "unit DialogStackProps" where
  "default_props \<equiv> \<lparr>offsetY = None, offsetScale = None, offsetOpacity = None,
                     onPointerDownOutside_p = None\<rparr>"

abbreviation flat_props :: "unit DialogStackProps" where
  "flat_props \<equiv> \<lparr>offsetY = None, offsetScale = Some (Num 0), offsetOpacity = Some (Num 0),
                  onPointerDownOutside_p = None\<rparr>"

text \<open>Props with the offsets \<^verbatim>\<open>1e-17\<close>, positive and far below the spacing of the doubles
  next to 1.\<close>

abbreviation tiny_props :: "unit DialogStackProps" where
  "tiny_props \<equiv> \<lparr>offsetY = None,
                  offsetScale = Some (js_literal (1 / 100000000000000000)),
                  offsetOpacity = Some (js_literal (1 / 100000000000000000)),
                  onPointerDownOutside_p = None\<rparr>"

text \<open>Two descriptors that share the id \<open>a\<close>, both closed and both open.\<close>

abbreviation dup_dialogs :: "nat DialogProps list" where
  "dup_dialogs \<equiv> [\<lparr>id_d = ''a'', open_d = Some False, dialog_d = 1\<rparr>,
                  \<lparr>id_d = ''a'', open_d = Some False, dialog_d = 2\<rparr>]"

abbreviation dup_open_dialogs :: "nat DialogProps list" where
  "dup_open_dialogs \<equiv> [\<lparr>id_d = ''a'', open_d = Some True, dialog_d = 1\<rparr>,
                       \<lparr>id_d = ''a'', open_d = Some True, dialog_d = 2\<rparr>]"

section \<open>Basic facts about the operations\<close>

lemma clearDialogs_map:
  "clearDialogs snap ds = map (\<lambda>dialog. dialog\<lparr>open_d := Some False\<rparr>) ds"
  by (simp add: clearDialogs_def array_truthy_def)

lemma length_openDialog [simp]: "length (openDialog i ds) = length ds"
  by (simp add: openDialog_def)

lemma length_closeDialog [simp]: "length (closeDialog i ds) = length ds"
  by (simp add: closeDialog_def)

lemma length_clearDialogs [simp]: "length (clearDialogs snap ds) = length ds"
  by (simp add: clearDialogs_map)

lemma nth_openDialog:
  "j < length ds \<Longrightarrow>
   openDialog i ds ! j = (if id_d (ds ! j) = i then (ds ! j)\<lparr>open_d := Some True\<rparr> else ds ! j)"
  by (simp add: openDialog_def)

lemma nth_closeDialog:
  "j < length ds \<Longrightarrow>
   closeDialog i ds ! j = (if id_d (ds ! j) = i then (ds ! j)\<lparr>open_d := Some False\<rparr> else ds ! j)"
  by (simp add: closeDialog_def)

lemma nth_clearDialogs:
  "j < length ds \<Longrightarrow> clearDialogs snap ds ! j = (ds ! j)\<lparr>open_d := Some False\<rparr>"
  by (simp add: clearDialogs_map)

section \<open>Clearing the registry\<close>

text \<open>
  Claim C3. For every registry state, \<^verbatim>\<open>clearDialogs\<close> leaves every descriptor with
  \<^verbatim>\<open>open = false\<close> (the list of open flags of the result is \<open>Some False\<close> at every
  position of the original list), and it is idempotent: clearing twice gives exactly the
  state that clearing once gives. The array captured by the guard plays no role.
\<close>

theorem clearDialogs_all_closed_idempotent:
  "map open_d (clearDialogs snap ds) = replicate (length ds) (Some False)
   \<and> clearDialogs snap2 (clearDialogs snap ds) = clearDialogs snap ds"
  by (simp add: clearDialogs_map map_replicate_const comp_def)

section \<open>Opening and closing by id\<close>

lemma openDialog_absent: "i \<notin> id_d ` set ds \<Longrightarrow> openDialog i ds = ds"
  unfolding openDialog_def by (rule map_idI) auto

lemma closeDialog_absent: "i \<notin> id_d ` set ds \<Longrightarrow> closeDialog i ds = ds"
  unfolding closeDialog_def by (rule map_idI) auto

lemma openDialog_idem: "openDialog i (openDialog i ds) = openDialog i ds"
  by (simp add: openDialog_def)

lemma closeDialog_idem: "closeDialog i (closeDialog i ds) = closeDialog i ds"
  by (simp add: closeDialog_def)

text \<open>
  Claim C2. For every registry state and id: \<^verbatim>\<open>openDialog(id)\<close> replaces each descriptor
  whose id is the argument by the same descriptor with \<^verbatim>\<open>open = true\<close>, and
  \<^verbatim>\<open>closeDialog(id)\<close> by the same descriptor with \<^verbatim>\<open>open = false\<close>; when no descriptor
  has the id, both return the state unchanged; and both are idempotent. Both are total
  functions into registry states: there is no error result.
\<close>

theorem openDialog_closeDialog_set_flag:
  "(\<forall>j<length ds. id_d (ds ! j) = i \<longrightarrow>
       openDialog i ds ! j = (ds ! j)\<lparr>open_d := Some True\<rparr>
     \<and> closeDialog i ds ! j = (ds ! j)\<lparr>open_d := Some False\<rparr>)
   \<and> (i \<notin> id_d ` set ds \<longrightarrow> openDialog i ds = ds \<and> closeDialog i ds = ds)
   \<and> openDialog i (openDialog i ds) = openDialog i ds
   \<and> closeDialog i (closeDialog i ds) = closeDialog i ds"
  by (simp add: nth_openDialog nth_closeDialog openDialog_absent closeDialog_absent
        openDialog_idem closeDialog_idem)

theorem openDialog_closeDialog_set_flag_witness:
  "(0 < length two_dialogs \<and> id_d (two_dialogs ! 0) = ''first''
    \<and> openDialog ''first'' two_dialogs ! 0
        = \<lparr>id_d = ''first'', open_d = Some True, dialog_d = 1\<rparr>
    \<and> closeDialog ''first'' two_dialogs ! 0
        = \<lparr>id_d = ''first'', open_d = Some False, dialog_d = 1\<rparr>)
   \<and> (''third'' \<notin> id_d ` set two_dialogs
    \<and> openDialog ''third'' two_dialogs = two_dialogs
    \<and> closeDialog ''third'' two_dialogs = two_dialogs)"
  using openDialog_closeDialog_set_flag [where ds = two_dialogs and i = "''first''"]
        openDialog_closeDialog_set_flag [where ds = two_dialogs and i = "''third''"]
  by simp

text \<open>
  Claim C6. In a registry state where every descriptor with the given id has
  \<^verbatim>\<open>open = false\<close>, \<^verbatim>\<open>openDialog(id)\<close> followed by \<^verbatim>\<open>closeDialog(id)\<close> gives back the
  original state, so the descriptor's flag is \<^verbatim>\<open>false\<close> again.
\<close>

theorem open_then_close_round_trip:
  assumes "\<forall>d\<in>set ds. id_d d = i \<longrightarrow> open_d d = Some False"
  shows "closeDialog i (openDialog i ds) = ds"
proof -
  have "map (\<lambda>d. if id_d (if id_d d = i then d\<lparr>open_d := Some True\<rparr> else d) = i
                 then (if id_d d = i then d\<lparr>open_d := Some True\<rparr> else d)\<lparr>open_d := Some False\<rparr>
                 else (if id_d d = i then d\<lparr>open_d := Some True\<rparr> else d)) ds = ds"
  proof (rule map_idI)
    fix d assume "d \<in> set ds"
    with assms have "id_d d = i \<Longrightarrow> open_d d = Some False" by blast
    then show "(if id_d (if id_d d = i then d\<lparr>open_d := Some True\<rparr> else d) = i
                 then (if id_d d = i then d\<lparr>open_d := Some True\<rparr> else d)\<lparr>open_d := Some False\<rparr>
                 else (if id_d d = i then d\<lparr>open_d := Some True\<rparr> else d)) = d"
      by (cases "id_d d = i") auto
  qed
  then show ?thesis by (simp add: openDialog_def closeDialog_def comp_def)
qed

theorem open_then_close_round_trip_witness:
  "map open_d (filter (\<lambda>d. id_d d = ''first'') two_dialogs) = [Some False]
   \<and> closeDialog ''first'' (openDialog ''first'' two_dialogs) = two_dialogs"
  using open_then_close_round_trip [where ds = two_dialogs and i = "''first''"]
  by simp

text \<open>
  Claim C10. \<^verbatim>\<open>openDialog(id)\<close> and \<^verbatim>\<open>closeDialog(id)\<close> leave every descriptor whose id
  differs from the argument as it was, in all its fields.
\<close>

theorem open_close_frame:
  "j < length ds \<Longrightarrow> id_d (ds ! j) \<noteq> i \<Longrightarrow>
   openDialog i ds ! j = ds ! j \<and> closeDialog i ds ! j = ds ! j"
  by (simp add: nth_openDialog nth_closeDialog)

theorem open_close_frame_witness:
  "1 < length two_dialogs \<and> id_d (two_dialogs ! 1) \<noteq> ''first''
   \<and> openDialog ''first'' two_dialogs ! 1 = two_dialogs ! 1
   \<and> closeDialog ''first'' two_dialogs ! 1 = two_dialogs ! 1"
  using open_close_frame [where ds = two_dialogs and i = "''first''" and j = 1]
  by simp

section \<open>What no operation changes\<close>

lemma apply_call_keeps:
  "map (\<lambda>d. d\<lparr>open_d := None\<rparr>) (apply_call call ds) = map (\<lambda>d. d\<lparr>open_d := None\<rparr>) ds"
  by (cases call) (simp_all add: openDialog_def closeDialog_def clearDialogs_map comp_def)

lemma run_calls_keeps:
  "map (\<lambda>d. d\<lparr>open_d := None\<rparr>) (run_calls calls ds) = map (\<lambda>d. d\<lparr>open_d := None\<rparr>) ds"
  unfolding run_calls_def
  by (induction calls arbitrary: ds) (simp_all add: apply_call_keeps)

text \<open>
  Claim C9. Any sequence of \<^verbatim>\<open>openDialog\<close>, \<^verbatim>\<open>closeDialog\<close> and \<^verbatim>\<open>clearDialogs\<close> calls
  (a single call in particular) keeps the number of descriptors, their order, their ids
  and their content: with the open flags blanked out, the registry after the calls is the
  registry before them, so the open flag is the only field that changes.
\<close>

theorem registry_calls_preserve_descriptors:
  "length (run_calls calls ds) = length ds
   \<and> map id_d (run_calls calls ds) = map id_d ds
   \<and> map dialog_d (run_calls calls ds) = map dialog_d ds
   \<and> map (\<lambda>d. d\<lparr>open_d := None\<rparr>) (run_calls calls ds) = map (\<lambda>d. d\<lparr>open_d := None\<rparr>) ds
   \<and> run_calls [Open i] ds = openDialog i ds
   \<and> run_calls [Close i] ds = closeDialog i ds
   \<and> run_calls [ClearAll] ds = clearDialogs ds ds"
proof -
  have k: "map (\<lambda>d. d\<lparr>open_d := None\<rparr>) (run_calls calls ds) = map (\<lambda>d. d\<lparr>open_d := None\<rparr>) ds"
    by (rule run_calls_keeps)
  have "map (id_d \<circ> (\<lambda>d. d\<lparr>open_d := None\<rparr>)) (run_calls calls ds)
        = map (id_d \<circ> (\<lambda>d. d\<lparr>open_d := None\<rparr>)) ds"
    using arg_cong [OF k, of "map id_d"] by (simp only: map_map)
  then have i: "map id_d (run_calls calls ds) = map id_d ds"
    by (simp add: comp_def)
  have "map (dialog_d \<circ> (\<lambda>d. d\<lparr>open_d := None\<rparr>)) (run_calls calls ds)
        = map (dialog_d \<circ> (\<lambda>d. d\<lparr>open_d := None\<rparr>)) ds"
    using arg_cong [OF k, of "map dialog_d"] by (simp only: map_map)
  then have c: "map dialog_d (run_calls calls ds) = map dialog_d ds"
    by (simp add: comp_def)
  have l: "length (run_calls calls ds) = length ds"
    using arg_cong [OF i, of length] by simp
  show ?thesis using k i c l by (simp add: run_calls_def)
qed

section \<open>Initialisation\<close>

text \<open>
  Claim C5. The initial state has the descriptors of the given list, in the same order
  and with the same ids and content; a descriptor without an \<^verbatim>\<open>open\<close> value gets
  \<^verbatim>\<open>false\<close> and an explicit value is kept. When no descriptor of the list sets
  \<^verbatim>\<open>open\<close>, the open subset of the initial state is empty. Without a list the registry
  is empty.
\<close>

theorem initialState_defaults:
  "length (initialState (Some ds)) = length ds
   \<and> (\<forall>j<length ds.
         id_d (initialState (Some ds) ! j) = id_d (ds ! j)
       \<and> dialog_d (initialState (Some ds) ! j) = dialog_d (ds ! j)
       \<and> open_d (initialState (Some ds) ! j)
           = (case open_d (ds ! j) of None \<Rightarrow> Some False | Some b \<Rightarrow> Some b))
   \<and> ((\<forall>d\<in>set ds. open_d d = None) \<longrightarrow> openDialogs_of (initialState (Some ds)) = [])
   \<and> initialState None = ([] :: 'c registry)"
  by (auto simp: initialState_def nullish_default_def openDialogs_of_def truthy_def
        filter_empty_conv split: option.splits)

theorem initialState_defaults_witness:
  "map open_d unset_dialogs = [None, None]
   \<and> openDialogs_of (initialState (Some unset_dialogs)) = []
   \<and> initialState (Some unset_dialogs)
       = [\<lparr>id_d = ''first'', open_d = Some False, dialog_d = 1\<rparr>,
          \<lparr>id_d = ''second'', open_d = Some False, dialog_d = 2\<rparr>]
   \<and> 1 < length preset_dialogs
   \<and> open_d (initialState (Some preset_dialogs) ! 1) = Some True
   \<and> open_d (initialState (Some preset_dialogs) ! 0) = Some False"
  using initialState_defaults [where ds = unset_dialogs]
        initialState_defaults [where ds = preset_dialogs]
  by (simp add: initialState_def nullish_default_def)

section \<open>Closing the host dialog\<close>

text \<open>
  Claim C4. Inside a provider, the open-change handler that \<^verbatim>\<open>DialogRootContent\<close> gives
  to the host dialog, called with \<^verbatim>\<open>open = false\<close>, runs \<^verbatim>\<open>clearDialogs\<close>: in the
  resulting registry every descriptor has \<^verbatim>\<open>open = false\<close> and the open subset is empty,
  whatever the caller's own callback does to the caller's state. Called with
  \<^verbatim>\<open>open = true\<close> it leaves the registry as it is.
\<close>

theorem host_close_clears_registry:
  "case DialogRootContent (Some (DialogProvider u1 u2 u3 dialogs)) onOpenChange of
     Inl e \<Rightarrow> False
   | Inr handleOpenChange' \<Rightarrow>
       map open_d (snd (handleOpenChange' False (s, ds))) = replicate (length ds) (Some False)
     \<and> openDialogs_of (snd (handleOpenChange' False (s, ds))) = []
     \<and> snd (handleOpenChange' True (s, ds)) = ds"
  by (simp add: DialogRootContent_def useDialogContext_def DialogProvider_def
        handleOpenChange_def Let_def clearDialogs_map openDialogs_of_def truthy_def
        map_replicate_const comp_def filter_empty_conv)

section \<open>Components outside a provider\<close>

text \<open>
  Claim C8. With no provider above it (the context is \<^verbatim>\<open>undefined\<close>), the accessor
  \<^verbatim>\<open>useDialogContext\<close> throws, and so does the render of every component that reads the
  registry: the trigger, \<^verbatim>\<open>StackAdd\<close>, \<^verbatim>\<open>StackRemove\<close>, \<^verbatim>\<open>Stack\<close>, \<^verbatim>\<open>StackContent\<close>,
  \<^verbatim>\<open>StackTitle\<close>, \<^verbatim>\<open>StackDescription\<close> and the root's content. None of them returns an
  element.
\<close>

theorem outside_provider_throws:
  "useDialogContext None = Inl (Error ''useDialogContext must be used within a DialogProvider'')
   \<and> DialogTrigger None dialogId onClick
       = Inl (Error ''useDialogContext must be used within a DialogProvider'')
   \<and> DialogStackAdd None addId onClickAdd
       = Inl (Error ''useDialogContext must be used within a DialogProvider'')
   \<and> DialogStackRemove None removeId onClickRemove
       = Inl (Error ''useDialogContext must be used within a DialogProvider'')
   \<and> DialogStack None stackProps
       = Inl (Error ''useDialogContext must be used within a DialogProvider'')
   \<and> DialogStackContent None contentProps
       = Inl (Error ''useDialogContext must be used within a DialogProvider'')
   \<and> DialogStackTitle None titleProps
       = Inl (Error ''useDialogContext must be used within a DialogProvider'')
   \<and> DialogStackDescription None descriptionProps
       = Inl (Error ''useDialogContext must be used within a DialogProvider'')
   \<and> DialogRootContent None onOpenChange
       = Inl (Error ''useDialogContext must be used within a DialogProvider'')"
  by (simp add: useDialogContext_def DialogTrigger_def DialogStackAdd_def
        DialogStackRemove_def DialogStack_def DialogStackContent_def DialogStackTitle_def
        DialogStackDescription_def DialogRootContent_def)

section \<open>The open subset\<close>

lemma truthy_iff: "truthy b \<longleftrightarrow> b = Some True"
  by (cases b) (simp_all add: truthy_def)

lemma openDialogs_of_filter:
  "openDialogs_of ds = filter (\<lambda>d. open_d d = Some True) ds"
  by (simp add: openDialogs_of_def truthy_iff)

section \<open>Checks of the arithmetic\<close>

text \<open>
  The literals and products of the stack's defaults, and the roundings that decide them,
  evaluated in the model: \<^verbatim>\<open>0.05\<close> is \<open>0x1.999999999999ap-5\<close>, \<^verbatim>\<open>0.33\<close> is
  \<open>0x1.51eb851eb851fp-2\<close>, \<^verbatim>\<open>1 - 0.33 * 2\<close> is \<open>0.33999999999999997\<close>.
\<close>

lemmas js_eval = pow2_def binade.simps round_half_even_def round_magnitude_def fl_def
  js_literal_def js_of_int_def js_mul_def js_add_def js_sub_def js_less_def Let_def

lemma literal_small:
  "js_literal 0 = Num 0" "js_literal 1 = Num 1" "js_literal 2 = Num 2" "js_literal 24 = Num 24"
  by (simp_all add: js_eval)

lemma literal_0_05: "js_literal (5 / 100) = Num (3602879701896397 / 72057594037927936)"
  by (simp add: js_eval)

lemma literal_0_33: "js_literal (33 / 100) = Num (5944751508129055 / 18014398509481984)"
  by (simp add: js_eval)

lemma position_numbers: "js_of_int 0 = Num 0" "js_of_int 1 = Num 1" "js_of_int 2 = Num 2"
  by (simp_all add: js_eval)

lemma literal_0_05_normal: "js_literal (1 / 20) = Num (3602879701896397 / 72057594037927936)"
  by (simp add: js_eval)

lemma default_scale_values:
  "js_sub (Num 1) (js_mul (Num (3602879701896397 / 72057594037927936)) (Num 0)) = Num 1"
  "js_sub (Num 1) (js_mul (Num (3602879701896397 / 72057594037927936)) (Num 1))
     = Num (4278419646001971 / 4503599627370496)"
  "js_sub (Num 1) (js_mul (Num (3602879701896397 / 72057594037927936)) (Num 2))
     = Num (8106479329266893 / 9007199254740992)"
  by (simp_all add: js_eval)

lemma default_opacity_values:
  "js_sub (Num 1) (js_mul (Num (5944751508129055 / 18014398509481984)) (Num 0)) = Num 1"
  "js_sub (Num 1) (js_mul (Num (5944751508129055 / 18014398509481984)) (Num 1))
     = Num (377176468792279 / 562949953421312)"
  "js_sub (Num 1) (js_mul (Num (5944751508129055 / 18014398509481984)) (Num 2))
     = Num (3062447746611937 / 9007199254740992)"
  by (simp_all add: js_eval)

lemma default_y_values:
  "js_mul (Num 0) (Num (- 24)) = NegZero"
  "js_mul (Num 1) (Num (- 24)) = Num (- 24)"
  "js_mul (Num 2) (Num (- 24)) = Num (- 48)"
  by (simp_all add: js_eval)

lemmas default_values = literal_small literal_0_05_normal literal_0_33 position_numbers
  default_scale_values default_opacity_values default_y_values

text \<open>
  Ties go to the even neighbour; the largest double is \<open>2^1024 - 2^971\<close> and half a
  spacing above it overflows; the smallest is \<open>2^-1074\<close> and less than half of it
  underflows to a zero of the same sign; an infinite or undefined operand propagates.
\<close>

lemma rounding_checks:
  "js_mul (js_literal (5 / 100)) (js_literal 2) = Num (3602879701896397 / 36028797018963968)"
  "js_literal (1 + 1 / 2 ^ 53) = Num 1"
  "js_literal (1 + 3 / 2 ^ 53) = Num (1 + 1 / 2 ^ 51)"
  "js_literal (2 ^ 1024 - 2 ^ 970 - 1) = Num (2 ^ 1024 - 2 ^ 971)"
  "js_literal (2 ^ 1024 - 2 ^ 970) = PosInf"
  "js_literal (3 / 10 ^ 324) = Num (1 / 2 ^ 1074)"
  "js_literal (2 / 10 ^ 324) = Num 0"
  "js_literal (- (2 / 10 ^ 324)) = NegZero"
  by (simp_all add: js_eval)

lemma special_value_checks:
  "js_mul PosInf (Num 0) = NaN"
  "js_sub (Num 1) (js_mul PosInf (Num 1)) = NegInf"
  "js_sub (Num 1) NaN = NaN"
  "js_sub PosInf PosInf = NaN"
  "\<not> js_less NaN (Num 1)"
  "\<not> js_less NegZero (Num 0)"
  by (simp_all add: js_mul_def js_sub_def js_add_def js_less_def)

section \<open>The stack layout\<close>

lemma DialogStack_inside:
  "DialogStack (Some c) props =
     Inr \<lparr>stack_children =
            map (\<lambda>(index, dialog).
                   stack_item (default_param (offsetY props) (js_literal 24))
                     (default_param (offsetScale props) (js_literal (5 / 100)))
                     (default_param (offsetOpacity props) (js_literal (33 / 100)))
                     (length (openDialogs_of (dialogs_c c))) index dialog)
              (zip [0..<length (openDialogs_of (dialogs_c c))] (openDialogs_of (dialogs_c c))),
          onPointerDownOutside =
            (case onPointerDownOutside_p props of
               None \<Rightarrow> (\<lambda>st. (fst st, clearDialogs_c c (snd st)))
             | Some f \<Rightarrow> (\<lambda>st. (f (fst st), snd st)))\<rparr>"
  by (simp add: DialogStack_def useDialogContext_def Let_def)

lemma animate_stack_item:
  "animate_m (stack_item offY offS offO n i d) =
     \<lparr>scale_t = js_sub (js_literal 1) (js_mul offS (js_of_int (int n - int i - 1))),
      y_t = js_mul (js_of_int (int n - int i - 1)) (js_neg offY),
      opacity_t = js_sub (js_literal 1) (js_mul offO (js_of_int (int n - int i - 1))),
      zIndex_t = Some (int n - (int n - int i - 1))\<rparr>"
  by (simp add: stack_item_def position_of_def Let_def)

lemma default_scale_strict:
  "js_less (js_sub (js_literal 1) (js_mul (js_literal (5 / 100)) (js_of_int 2)))
           (js_sub (js_literal 1) (js_mul (js_literal (5 / 100)) (js_of_int 1)))"
  "js_less (js_sub (js_literal 1) (js_mul (js_literal (5 / 100)) (js_of_int 1)))
           (js_sub (js_literal 1) (js_mul (js_literal (5 / 100)) (js_of_int 0)))"
  by (simp_all add: default_values js_less_def)

lemma default_opacity_strict:
  "js_less (js_sub (js_literal 1) (js_mul (js_literal (33 / 100)) (js_of_int 2)))
           (js_sub (js_literal 1) (js_mul (js_literal (33 / 100)) (js_of_int 1)))"
  "js_less (js_sub (js_literal 1) (js_mul (js_literal (33 / 100)) (js_of_int 1)))
           (js_sub (js_literal 1) (js_mul (js_literal (33 / 100)) (js_of_int 0)))"
  by (simp_all add: default_values js_less_def)

text \<open>
  Claim C1 (amended). Inside a provider, \<^verbatim>\<open>DialogStack\<close> renders one item per descriptor
  with \<^verbatim>\<open>open = true\<close>, in registry order, keyed by the descriptor's id and holding its
  content. With \<open>N\<close> such descriptors, the item at filtered index \<open>i\<close> has position
  \<open>N - i - 1\<close> and the resting transform \<^verbatim>\<open>y = position * -offsetY\<close>,
  \<^verbatim>\<open>scale = 1 - offsetScale * position\<close>, \<^verbatim>\<open>opacity = 1 - offsetOpacity * position\<close>,
  computed in JavaScript numbers, and \<^verbatim>\<open>zIndex = N - position\<close>; each offset is the
  caller's value or else the default \<^verbatim>\<open>24\<close>, \<^verbatim>\<open>0.05\<close>, \<^verbatim>\<open>0.33\<close>. With three open
  descriptors \<open>A\<close>, \<open>B\<close>, \<open>C\<close> the positions are 2, 1, 0 and the z-indices 1, 2, 3; with
  the default \<^verbatim>\<open>offsetScale\<close> the scale strictly decreases as the position increases, and
  with the default \<^verbatim>\<open>offsetOpacity\<close> the opacity does.
\<close>

theorem DialogStack_resting_layout:
  "case DialogStack (Some c) props of
     Inl e \<Rightarrow> False
   | Inr view \<Rightarrow>
       (let shown = filter (\<lambda>d. open_d d = Some True) (dialogs_c c);
            N = length shown;
            items = stack_children view;
            offY = (case offsetY props of None \<Rightarrow> js_literal 24 | Some v \<Rightarrow> v);
            offS = (case offsetScale props of None \<Rightarrow> js_literal (5 / 100) | Some v \<Rightarrow> v);
            offO = (case offsetOpacity props of None \<Rightarrow> js_literal (33 / 100) | Some v \<Rightarrow> v)
        in map key_m items = map id_d shown
         \<and> map children_m items = map dialog_d shown
         \<and> (\<forall>i<N. animate_m (items ! i) =
               \<lparr>scale_t = js_sub (js_literal 1) (js_mul offS (js_of_int (int N - int i - 1))),
                y_t = js_mul (js_of_int (int N - int i - 1)) (js_neg offY),
                opacity_t = js_sub (js_literal 1) (js_mul offO (js_of_int (int N - int i - 1))),
                zIndex_t = Some (int N - (int N - int i - 1))\<rparr>)
         \<and> (N = 3 \<longrightarrow>
               map (\<lambda>i. int N - int i - 1) [0, 1, 2] = [2, 1, 0]
             \<and> map (zIndex_t \<circ> animate_m) items = [Some 1, Some 2, Some 3])
         \<and> (N = 3 \<and> offsetScale props = None \<longrightarrow>
               js_less (scale_t (animate_m (items ! 0))) (scale_t (animate_m (items ! 1)))
             \<and> js_less (scale_t (animate_m (items ! 1))) (scale_t (animate_m (items ! 2))))
         \<and> (N = 3 \<and> offsetOpacity props = None \<longrightarrow>
               js_less (opacity_t (animate_m (items ! 0))) (opacity_t (animate_m (items ! 1)))
             \<and> js_less (opacity_t (animate_m (items ! 1))) (opacity_t (animate_m (items ! 2)))))"
proof -
  define od where "od = openDialogs_of (dialogs_c c)"
  define offY where "offY = default_param (offsetY props) (js_literal 24)"
  define offS where "offS = default_param (offsetScale props) (js_literal (5 / 100))"
  define offO where "offO = default_param (offsetOpacity props) (js_literal (33 / 100))"
  define items where
    "items = map (\<lambda>(index, dialog). stack_item offY offS offO (length od) index dialog)
               (zip [0..<length od] od)"
  have len: "length items = length od"
    by (simp add: items_def)
  have nth: "items ! i = stack_item offY offS offO (length od) i (od ! i)"
    if "i < length od" for i
    using that by (simp add: items_def)
  have keys: "map key_m items = map id_d od"
    by (rule nth_equalityI) (simp_all add: len nth stack_item_def Let_def)
  have kids: "map children_m items = map dialog_d od"
    by (rule nth_equalityI) (simp_all add: len nth stack_item_def Let_def)
  have rest: "animate_m (items ! i) =
     \<lparr>scale_t = js_sub (js_literal 1) (js_mul offS (js_of_int (int (length od) - int i - 1))),
      y_t = js_mul (js_of_int (int (length od) - int i - 1)) (js_neg offY),
      opacity_t = js_sub (js_literal 1) (js_mul offO (js_of_int (int (length od) - int i - 1))),
      zIndex_t = Some (int (length od) - (int (length od) - int i - 1))\<rparr>"
    if "i < length od" for i
    using that by (simp add: nth animate_stack_item)
  have three: "items = [items ! 0, items ! 1, items ! 2]" if "length od = 3"
  proof -
    from that len have "length items = 3" by simp
    then obtain a b c' where "items = [a, b, c']"
      by (auto simp: length_Suc_conv numeral_3_eq_3)
    then show ?thesis by simp
  qed
  have pos: "map (\<lambda>i. int (length od) - int i - 1) [0, 1, 2] = [2, 1, 0]" if "length od = 3"
    using that by simp
  have zs: "map (zIndex_t \<circ> animate_m) items = [Some 1, Some 2, Some 3]" if "length od = 3"
  proof -
    have "map (zIndex_t \<circ> animate_m) [items ! 0, items ! 1, items ! 2]
            = [Some 1, Some 2, Some 3]"
      using that by (simp add: rest)
    with three [OF that] show ?thesis by simp
  qed
  have scale:
    "js_less (scale_t (animate_m (items ! 0))) (scale_t (animate_m (items ! 1)))
     \<and> js_less (scale_t (animate_m (items ! 1))) (scale_t (animate_m (items ! 2)))"
    if "length od = 3" "offsetScale props = None"
  proof -
    have "offS = js_literal (5 / 100)"
      by (simp only: offS_def default_param_def that(2) option.case)
    moreover have "int (length od) - int 0 - 1 = 2" "int (length od) - int 1 - 1 = 1"
      "int (length od) - int 2 - 1 = 0"
      using that(1) by simp_all
    moreover have "0 < length od" "1 < length od" "2 < length od"
      using that(1) by simp_all
    ultimately show ?thesis
      by (simp only: rest motion_target.simps default_scale_strict simp_thms)
  qed
  have opac:
    "js_less (opacity_t (animate_m (items ! 0))) (opacity_t (animate_m (items ! 1)))
     \<and> js_less (opacity_t (animate_m (items ! 1))) (opacity_t (animate_m (items ! 2)))"
    if "length od = 3" "offsetOpacity props = None"
  proof -
    have "offO = js_literal (33 / 100)"
      by (simp only: offO_def default_param_def that(2) option.case)
    moreover have "int (length od) - int 0 - 1 = 2" "int (length od) - int 1 - 1 = 1"
      "int (length od) - int 2 - 1 = 0"
      using that(1) by simp_all
    moreover have "0 < length od" "1 < length od" "2 < length od"
      using that(1) by simp_all
    ultimately show ?thesis
      by (simp only: rest motion_target.simps default_opacity_strict simp_thms)
  qed
  have view: "DialogStack (Some c) props =
      Inr \<lparr>stack_children = items,
           onPointerDownOutside =
             (case onPointerDownOutside_p props of
                None \<Rightarrow> (\<lambda>st. (fst st, clearDialogs_c c (snd st)))
              | Some f \<Rightarrow> (\<lambda>st. (f (fst st), snd st)))\<rparr>"
    by (simp only: DialogStack_inside items_def od_def offY_def offS_def offO_def)
  have shown: "filter (\<lambda>d. open_d d = Some True) (dialogs_c c) = od"
    by (simp add: od_def openDialogs_of_filter)
  have dY: "(case offsetY props of None \<Rightarrow> js_literal 24 | Some v \<Rightarrow> v) = offY"
    by (simp only: offY_def default_param_def)
  have dS: "(case offsetScale props of None \<Rightarrow> js_literal (5 / 100) | Some v \<Rightarrow> v) = offS"
    by (simp only: offS_def default_param_def)
  have dO: "(case offsetOpacity props of None \<Rightarrow> js_literal (33 / 100) | Some v \<Rightarrow> v) = offO"
    by (simp only: offO_def default_param_def)
  show ?thesis
    unfolding view sum.case Let_def shown dY dS dO DialogStack_view.simps
    using keys kids rest pos zs scale opac by blast
qed


theorem DialogStack_resting_layout_witness:
  "case DialogStack (Some (DialogProvider ''r1'' ''r2'' ''r3'' mixed_dialogs)) default_props of
     Inl e \<Rightarrow> False
   | Inr view \<Rightarrow>
       map key_m (stack_children view) = [''A'', ''B'', ''C'']
     \<and> map children_m (stack_children view) = [1, 2, 3]
     \<and> map (position_of 3) [0, 1, 2] = [2, 1, 0]
     \<and> map (zIndex_t \<circ> animate_m) (stack_children view) = [Some 1, Some 2, Some 3]
     \<and> map (y_t \<circ> animate_m) (stack_children view) = [Num (- 48), Num (- 24), NegZero]
     \<and> map (scale_t \<circ> animate_m) (stack_children view)
         = [Num (8106479329266893 / 9007199254740992),
            Num (4278419646001971 / 4503599627370496),
            Num 1]
     \<and> map (opacity_t \<circ> animate_m) (stack_children view)
         = [Num (3062447746611937 / 9007199254740992),
            Num (377176468792279 / 562949953421312),
            Num 1]"
proof -
  show ?thesis
    using DialogStack_resting_layout
            [where c = "DialogProvider ''r1'' ''r2'' ''r3'' mixed_dialogs"
               and props = default_props]
    by (simp add: DialogStack_def useDialogContext_def DialogProvider_def openDialogs_of_def
          truthy_def default_param_def stack_item_def position_of_def Let_def default_values)
qed

text \<open>
  Claim C1 as the specification states it promises strictly decreasing scale and opacity
  for every stack of three open descriptors. The offsets are props of the component: with
  \<^verbatim>\<open>offsetScale = 0\<close> and \<^verbatim>\<open>offsetOpacity = 0\<close> the three items keep their positions and
  z-indices, and all have scale 1 and opacity 1.
\<close>

theorem DialogStack_flat_counterexample:
  "case DialogStack (Some (DialogProvider ''r1'' ''r2'' ''r3'' abc_dialogs)) flat_props of
     Inl e \<Rightarrow> False
   | Inr view \<Rightarrow>
       map key_m (stack_children view) = [''A'', ''B'', ''C'']
     \<and> map (zIndex_t \<circ> animate_m) (stack_children view) = [Some 1, Some 2, Some 3]
     \<and> map (scale_t \<circ> animate_m) (stack_children view) = [Num 1, Num 1, Num 1]
     \<and> map (opacity_t \<circ> animate_m) (stack_children view) = [Num 1, Num 1, Num 1]
     \<and> \<not> js_less (scale_t (animate_m (stack_children view ! 0)))
                   (scale_t (animate_m (stack_children view ! 1)))
     \<and> \<not> js_less (opacity_t (animate_m (stack_children view ! 0)))
                   (opacity_t (animate_m (stack_children view ! 1)))"
proof -
  have flat:
    "js_sub (Num 1) (js_mul (Num 0) (Num 0)) = Num 1"
    "js_sub (Num 1) (js_mul (Num 0) (Num 1)) = Num 1"
    "js_sub (Num 1) (js_mul (Num 0) (Num 2)) = Num 1"
    by (simp_all add: js_eval)
  show ?thesis
    by (simp add: DialogStack_def useDialogContext_def DialogProvider_def openDialogs_of_def
          truthy_def default_param_def stack_item_def position_of_def Let_def literal_small
          position_numbers flat js_less_def)
qed

text \<open>
  A positive offset is not enough for a strict decrease: \<^verbatim>\<open>1 - 1e-17 * 2\<close> rounds to 1,
  so with both offsets at \<^verbatim>\<open>1e-17\<close> all three items again have scale 1 and opacity 1.
\<close>

lemma DialogStack_tiny_offsets:
  "case DialogStack (Some (DialogProvider ''r1'' ''r2'' ''r3'' abc_dialogs)) tiny_props of
     Inl e \<Rightarrow> False
   | Inr view \<Rightarrow>
       map (scale_t \<circ> animate_m) (stack_children view) = [Num 1, Num 1, Num 1]
     \<and> map (opacity_t \<circ> animate_m) (stack_children view) = [Num 1, Num 1, Num 1]"
proof -
  have lit: "js_literal (1 / 100000000000000000) = Num (6490371073168535 / 649037107316853453566312041152512)"
    by (simp add: js_eval)
  have tiny:
    "js_sub (Num 1) (js_mul (Num (6490371073168535 / 649037107316853453566312041152512)) (Num 0)) = Num 1"
    "js_sub (Num 1) (js_mul (Num (6490371073168535 / 649037107316853453566312041152512)) (Num 1)) = Num 1"
    "js_sub (Num 1) (js_mul (Num (6490371073168535 / 649037107316853453566312041152512)) (Num 2)) = Num 1"
    by (simp_all add: js_eval)
  show ?thesis
    by (simp add: DialogStack_def useDialogContext_def DialogProvider_def openDialogs_of_def
          truthy_def default_param_def stack_item_def position_of_def Let_def literal_small
          position_numbers lit tiny)
qed

section \<open>Duplicate ids\<close>

text \<open>
  Claim C7 as the specification states it, that duplicate ids behave as last-write-wins,
  fails on the code. With two closed descriptors of id \<open>a\<close>, \<^verbatim>\<open>openDialog("a")\<close> opens
  both, where last-write-wins opens only the second; \<^verbatim>\<open>closeDialog("a")\<close> closes both;
  and both are in the rendered open subset, where last-write-wins shows only the second.
\<close>

theorem duplicate_ids_counterexample:
  "openDialog ''a'' dup_dialogs = dup_open_dialogs
   \<and> spec_lww_set_open True ''a'' dup_dialogs
       = [\<lparr>id_d = ''a'', open_d = Some False, dialog_d = 1\<rparr>,
          \<lparr>id_d = ''a'', open_d = Some True, dialog_d = 2\<rparr>]
   \<and> openDialog ''a'' dup_dialogs \<noteq> spec_lww_set_open True ''a'' dup_dialogs
   \<and> closeDialog ''a'' dup_open_dialogs = dup_dialogs
   \<and> spec_lww_set_open False ''a'' dup_open_dialogs
       = [\<lparr>id_d = ''a'', open_d = Some True, dialog_d = 1\<rparr>,
          \<lparr>id_d = ''a'', open_d = Some False, dialog_d = 2\<rparr>]
   \<and> closeDialog ''a'' dup_open_dialogs \<noteq> spec_lww_set_open False ''a'' dup_open_dialogs
   \<and> map dialog_d (openDialogs_of dup_open_dialogs) = [1, 2]
   \<and> map dialog_d (spec_lww_openDialogs dup_open_dialogs) = [2]
   \<and> openDialogs_of dup_open_dialogs \<noteq> spec_lww_openDialogs dup_open_dialogs"
  by (simp add: openDialog_def closeDialog_def spec_lww_set_open_def spec_lww_openDialogs_def
        is_last_with_id_def openDialogs_of_def truthy_def)

lemma rendered_after_open:
  "map dialog_d (openDialogs_of (openDialog i ds))
     = map dialog_d (filter (\<lambda>d. id_d d = i \<or> open_d d = Some True) ds)"
  by (induction ds) (auto simp: openDialogs_of_def openDialog_def truthy_iff)

lemma rendered_after_close:
  "map dialog_d (openDialogs_of (closeDialog i ds))
     = map dialog_d (filter (\<lambda>d. id_d d \<noteq> i \<and> open_d d = Some True) ds)"
  by (induction ds) (auto simp: openDialogs_of_def closeDialog_def truthy_iff)

text \<open>
  Claim C7 (amended). Duplicate ids are neither rejected nor merged: \<^verbatim>\<open>openDialog(id)\<close>
  and \<^verbatim>\<open>closeDialog(id)\<close> set the flag of every descriptor that bears the id, and the
  rendered open subset holds every open descriptor in registry order, duplicates included:
  after \<^verbatim>\<open>openDialog(id)\<close> the content of all descriptors that bear the id or were open,
  after \<^verbatim>\<open>closeDialog(id)\<close> the content of the open descriptors with another id.
\<close>

theorem duplicate_ids_all_take_effect:
  "(\<forall>j<length ds. id_d (ds ! j) = i \<longrightarrow>
        open_d (openDialog i ds ! j) = Some True
      \<and> open_d (closeDialog i ds ! j) = Some False)
   \<and> map dialog_d (openDialogs_of (openDialog i ds))
       = map dialog_d (filter (\<lambda>d. id_d d = i \<or> open_d d = Some True) ds)
   \<and> map dialog_d (openDialogs_of (closeDialog i ds))
       = map dialog_d (filter (\<lambda>d. id_d d \<noteq> i \<and> open_d d = Some True) ds)"
  by (simp add: nth_openDialog nth_closeDialog rendered_after_open rendered_after_close)

theorem duplicate_ids_all_take_effect_witness:
  "0 < length dup_dialogs \<and> id_d (dup_dialogs ! 0) = ''a'' \<and> id_d (dup_dialogs ! 1) = ''a''
   \<and> open_d (openDialog ''a'' dup_dialogs ! 0) = Some True
   \<and> open_d (openDialog ''a'' dup_dialogs ! 1) = Some True
   \<and> open_d (closeDialog ''a'' dup_open_dialogs ! 0) = Some False
   \<and> map dialog_d (openDialogs_of (openDialog ''a'' dup_dialogs)) = [1, 2]
   \<and> map dialog_d (openDialogs_of (closeDialog ''a'' dup_open_dialogs)) = []"
  using duplicate_ids_all_take_effect [where ds = dup_dialogs and i = "''a''"]
        duplicate_ids_all_take_effect [where ds = dup_open_dialogs and i = "''a''"]
  by (simp add: openDialog_def closeDialog_def)


end
